theory Spec2Isabelle
  imports
    Main
    "HOL-Library.Word"
    "HOL-Library.Signed_Division"
    "HOL-Library.AList"
    "HOL-Library.Multiset"
begin

section \<open>Outcomes of an operation\<close>

text \<open>
  A Go function of this program ends in one of four ways: it returns a value with a nil
  error, it returns a non-nil error, it calls \<^verbatim>\<open>log.Fatal\<close> (the process exits), or it
  panics. The error values are the package's own sentinel, the errors it builds with
  \<^verbatim>\<open>fmt.Errorf\<close> (with and without \<^verbatim>\<open>%w\<close>), and errors handed up by a library or by
  the store.
\<close>

datatype error =
    ErrTraceNotFound
  | Errorf string
  | Wrapf string error
  | LibError string
  | StoreError string

datatype 'a result = Ok 'a | Err error | Fatal error | Panic string

section \<open>The tracing domain model\<close>

text \<open>
  The types of the tracer's \<^verbatim>\<open>model\<close> package, as this program reads and writes them.
  An instant (\<^verbatim>\<open>time.Time\<close>) is its count of nanoseconds since the Unix epoch, a
  \<^verbatim>\<open>time.Duration\<close> is a signed 64-bit count of nanoseconds, a 64-bit float is its bit
  pattern. A reference kind is the 32-bit enumeration value, so that kinds other than the
  two named ones exist; a value type is one of the five named ones.
\<close>

type_synonym Time = int
type_synonym Duration = "64 word"

record model_TraceID =
  High :: "64 word"
  Low :: "64 word"

type_synonym model_SpanID = "64 word"

type_synonym SpanRefType = "32 word"

definition model_ChildOf :: SpanRefType where
  "model_ChildOf = 0"

definition model_FollowsFrom :: SpanRefType where
  "model_FollowsFrom = 1"

record model_SpanRef =
  mref_TraceID :: model_TraceID
  mref_SpanID :: model_SpanID
  mref_RefType :: SpanRefType

datatype model_ValueType =
  model_StringType | model_BoolType | model_Int64Type | model_Float64Type | model_BinaryType

record model_KeyValue =
  Key :: string
  VType :: model_ValueType
  VStr :: string
  VBool :: bool
  VInt64 :: "64 word"
  VFloat64 :: "64 word"
  VBinary :: "8 word list"

record model_Log =
  mlog_Timestamp :: Time
  mlog_Fields :: "model_KeyValue list"

record model_Process =
  mproc_ServiceName :: string
  mproc_Tags :: "model_KeyValue list"

text \<open>
  A span points to its process. The writer reads through the pointer without a check and
  the reader always sets it, so a span here carries its process; a span with a nil process
  is outside the model.
\<close>

record model_Span =
  mspan_TraceID :: model_TraceID
  mspan_SpanID :: model_SpanID
  mspan_OperationName :: string
  mspan_References :: "model_SpanRef list"
  mspan_StartTime :: Time
  mspan_Duration :: Duration
  mspan_Tags :: "model_KeyValue list"
  mspan_Logs :: "model_Log list"
  mspan_Process :: model_Process
  mspan_ProcessID :: string
  mspan_Warnings :: "string list"

record model_Trace =
  Spans :: "model_Span list"

record DependencyLink =
  Parent :: string
  Child :: string
  CallCount :: "64 word"

text \<open>The constructors of typed tags: every field but the one the type names is zero.\<close>

definition model_String :: "string \<Rightarrow> string \<Rightarrow> model_KeyValue" where
  "model_String k v =
     \<lparr>Key = k, VType = model_StringType, VStr = v, VBool = False, VInt64 = 0,
      VFloat64 = 0, VBinary = []\<rparr>"

definition model_Bool :: "string \<Rightarrow> bool \<Rightarrow> model_KeyValue" where
  "model_Bool k v =
     \<lparr>Key = k, VType = model_BoolType, VStr = [], VBool = v, VInt64 = 0,
      VFloat64 = 0, VBinary = []\<rparr>"

definition model_Int64 :: "string \<Rightarrow> 64 word \<Rightarrow> model_KeyValue" where
  "model_Int64 k v =
     \<lparr>Key = k, VType = model_Int64Type, VStr = [], VBool = False, VInt64 = v,
      VFloat64 = 0, VBinary = []\<rparr>"

definition model_Float64 :: "string \<Rightarrow> 64 word \<Rightarrow> model_KeyValue" where
  "model_Float64 k v =
     \<lparr>Key = k, VType = model_Float64Type, VStr = [], VBool = False, VInt64 = 0,
      VFloat64 = v, VBinary = []\<rparr>"

text \<open>
  \<^verbatim>\<open>Duration.Microseconds\<close> divides the nanoseconds by 1000, truncating towards zero;
  \<^verbatim>\<open>MicrosecondsAsDuration\<close> reads its unsigned argument as a duration and multiplies by
  1000, wrapping. \<^verbatim>\<open>time.UnixMilli\<close> is the instant that many milliseconds after the
  epoch.
\<close>

definition Microseconds :: "Duration \<Rightarrow> 64 word" where
  "Microseconds d = word_of_int (sint d sdiv 1000)"

definition MicrosecondsAsDuration :: "64 word \<Rightarrow> Duration" where
  "MicrosecondsAsDuration v = v * 1000"

definition UnixMilli :: "64 word \<Rightarrow> Time" where
  "UnixMilli ms = sint ms * 1000000"

subsection \<open>Conversions of the standard library\<close>

text \<open>
  \<^verbatim>\<open>strconv.FormatInt(i, 10)\<close> and \<^verbatim>\<open>strconv.ParseInt(s, 10, 64)\<close>: an optional sign,
  then decimal digits only, at least one, and a value in the signed 64-bit range.
  \<^verbatim>\<open>strconv.ParseBool\<close> accepts the twelve spellings below.
\<close>

definition digit_char :: "int \<Rightarrow> char" where
  "digit_char d = char_of (48 + d)"

function FormatUint :: "int \<Rightarrow> string" where
  "FormatUint n = (if n < 10 then [digit_char n] else FormatUint (n div 10) @ [digit_char (n mod 10)])"
  by pat_completeness auto
termination
  by (relation "measure nat") auto

definition FormatInt :: "64 word \<Rightarrow> string" where
  "FormatInt i = (if sint i < 0 then CHR ''-'' # FormatUint (- sint i) else FormatUint (sint i))"

definition digit_val :: "char \<Rightarrow> int option" where
  "digit_val c =
     (if 48 \<le> (of_char c :: int) \<and> (of_char c :: int) \<le> 57 then Some (of_char c - 48) else None)"

fun parse_digits :: "int \<Rightarrow> string \<Rightarrow> int option" where
  "parse_digits acc [] = Some acc"
| "parse_digits acc (c # cs) =
     (case digit_val c of None \<Rightarrow> None | Some d \<Rightarrow> parse_digits (acc * 10 + d) cs)"

definition ParseUint :: "string \<Rightarrow> error + int" where
  "ParseUint s =
     (if s = [] then Inl (LibError ''invalid syntax'')
      else case parse_digits 0 s of
             None \<Rightarrow> Inl (LibError ''invalid syntax'')
           | Some n \<Rightarrow> if n < 2 ^ 64 then Inr n else Inl (LibError ''value out of range''))"

definition ParseInt :: "string \<Rightarrow> error + 64 word" where
  "ParseInt s =
     (if s = [] then Inl (LibError ''invalid syntax'')
      else
        let neg = (hd s = CHR ''-'');
            s' = (if hd s = CHR ''+'' \<or> hd s = CHR ''-'' then tl s else s)
        in case ParseUint s' of
             Inl e \<Rightarrow> Inl e
           | Inr un \<Rightarrow>
               if \<not> neg \<and> 2 ^ 63 \<le> un then Inl (LibError ''value out of range'')
               else if neg \<and> 2 ^ 63 < un then Inl (LibError ''value out of range'')
               else Inr (if neg then - word_of_int un else word_of_int un))"

definition ParseBool :: "string \<Rightarrow> error + bool" where
  "ParseBool s =
     (if s \<in> set [''1'', ''t'', ''T'', ''TRUE'', ''true'', ''True''] then Inr True
      else if s \<in> set [''0'', ''f'', ''F'', ''FALSE'', ''false'', ''False''] then Inr False
      else Inl (LibError ''invalid syntax''))"

subsection \<open>Conversions of the tracing library\<close>

text \<open>
  The rendering of identifiers as strings and their parsing, and the rendering and parsing
  of 64-bit floats, are the libraries' own and are not part of this program: they are
  taken as parameters.
\<close>

record ExternalLib =
  TraceID_String :: "model_TraceID \<Rightarrow> string"
  TraceIDFromString :: "string \<Rightarrow> error + model_TraceID"
  SpanID_String :: "model_SpanID \<Rightarrow> string"
  SpanIDFromString :: "string \<Rightarrow> error + model_SpanID"
  FormatFloat :: "64 word \<Rightarrow> string"
  ParseFloat :: "string \<Rightarrow> error + 64 word"

text \<open>
  \<^verbatim>\<open>VType.String()\<close> is the enumeration's name; \<^verbatim>\<open>AsString\<close> renders the value the
  type selects (binary values in hexadecimal).
\<close>

fun VType_String :: "model_ValueType \<Rightarrow> string" where
  "VType_String model_StringType = ''STRING''"
| "VType_String model_BoolType = ''BOOL''"
| "VType_String model_Int64Type = ''INT64''"
| "VType_String model_Float64Type = ''FLOAT64''"
| "VType_String model_BinaryType = ''BINARY''"

definition ToLower_char :: "char \<Rightarrow> char" where
  "ToLower_char c =
     (if 65 \<le> (of_char c :: int) \<and> (of_char c :: int) \<le> 90 then char_of (of_char c + (32 :: int)) else c)"

definition ToLower :: "string \<Rightarrow> string" where
  "ToLower s = map ToLower_char s"

definition hex_digit :: "int \<Rightarrow> char" where
  "hex_digit d = (if d < 10 then char_of (48 + d) else char_of (87 + d))"

definition hex_EncodeToString :: "8 word list \<Rightarrow> string" where
  "hex_EncodeToString bs = concat (map (\<lambda>b. [hex_digit (uint b div 16), hex_digit (uint b mod 16)]) bs)"

definition AsString :: "ExternalLib \<Rightarrow> model_KeyValue \<Rightarrow> string" where
  "AsString L kv =
     (case VType kv of
        model_StringType \<Rightarrow> VStr kv
      | model_BoolType \<Rightarrow> (if VBool kv then ''true'' else ''false'')
      | model_Int64Type \<Rightarrow> FormatInt (VInt64 kv)
      | model_Float64Type \<Rightarrow> FormatFloat L (VFloat64 kv)
      | model_BinaryType \<Rightarrow> hex_EncodeToString (VBinary kv))"

section \<open>The persisted span document\<close>

text \<open>
  The document types of the package. \<^verbatim>\<open>ReferenceType\<close>, \<^verbatim>\<open>TraceID\<close>, \<^verbatim>\<open>SpanID\<close> and
  \<^verbatim>\<open>ValueType\<close> are string types. A tag's value is an \<^verbatim>\<open>interface{}\<close>: nil, a
  string, or a value of another type.
\<close>

type_synonym ReferenceType = string
type_synonym ValueType = string

definition ChildOf :: ReferenceType where
  "ChildOf = ''CHILD_OF''"

definition FollowsFrom :: ReferenceType where
  "FollowsFrom = ''FOLLOWS_FROM''"

definition StringType :: ValueType where
  "StringType = ''string''"

definition BoolType :: ValueType where
  "BoolType = ''bool''"

definition Int64Type :: ValueType where
  "Int64Type = ''int64''"

definition Float64Type :: ValueType where
  "Float64Type = ''float64''"

datatype iface = INil | IString string | IInt64 "64 word" | IBool bool

record KeyValue =
  kv_Key :: string
  kv_Type :: ValueType
  kv_Value :: iface

record Reference =
  ref_RefType :: ReferenceType
  ref_TraceID :: string
  ref_SpanID :: string

record Process =
  proc_ServiceName :: string
  proc_Tags :: "KeyValue list"

record Log =
  log_Timestamp :: "64 word"
  log_Fields :: "KeyValue list"

record Span =
  span_TraceID :: string
  span_SpanID :: string
  span_OperationName :: string
  span_StartTime :: Time
  span_Duration :: "64 word"
  span_References :: "Reference list"
  span_ProcessID :: string
  span_Process :: Process
  span_Tags :: "KeyValue list"
  span_Logs :: "Log list"
  span_Warnings :: "string list"

section \<open>The span writer\<close>

definition convertRefType :: "SpanRefType \<Rightarrow> ReferenceType" where
  "convertRefType refType = (if refType = model_FollowsFrom then FollowsFrom else ChildOf)"

definition convertReferences :: "ExternalLib \<Rightarrow> model_Span \<Rightarrow> Reference list" where
  "convertReferences L span =
     map (\<lambda>ref. \<lparr>ref_RefType = convertRefType (mref_RefType ref),
                 ref_TraceID = TraceID_String L (mref_TraceID ref),
                 ref_SpanID = SpanID_String L (mref_SpanID ref)\<rparr>)
         (mspan_References span)"

definition convertKeyValue :: "ExternalLib \<Rightarrow> model_KeyValue \<Rightarrow> KeyValue" where
  "convertKeyValue L kv =
     \<lparr>kv_Key = Key kv, kv_Type = ToLower (VType_String (VType kv)), kv_Value = IString (AsString L kv)\<rparr>"

definition convertKeyValues :: "ExternalLib \<Rightarrow> model_KeyValue list \<Rightarrow> KeyValue list" where
  "convertKeyValues L keyValues =
     map (convertKeyValue L) (filter (\<lambda>kv. VType kv \<noteq> model_BinaryType) keyValues)"

definition convertProcess :: "ExternalLib \<Rightarrow> model_Process \<Rightarrow> Process" where
  "convertProcess L process =
     \<lparr>proc_ServiceName = mproc_ServiceName process, proc_Tags = convertKeyValues L (mproc_Tags process)\<rparr>"

text \<open>
  The document \<^verbatim>\<open>WriteSpan\<close> builds. The \<^verbatim>\<open>Logs\<close> field is not set (its line is
  commented out), so it is the empty sequence.
\<close>

definition mSpan :: "ExternalLib \<Rightarrow> model_Span \<Rightarrow> Span" where
  "mSpan L span =
     \<lparr>span_TraceID = TraceID_String L (mspan_TraceID span),
      span_SpanID = SpanID_String L (mspan_SpanID span),
      span_OperationName = mspan_OperationName span,
      span_StartTime = mspan_StartTime span,
      span_Duration = Microseconds (mspan_Duration span),
      span_References = convertReferences L span,
      span_ProcessID = mspan_ProcessID span,
      span_Process = convertProcess L (mspan_Process span),
      span_Tags = convertKeyValues L (mspan_Tags span),
      span_Logs = [],
      span_Warnings = mspan_Warnings span\<rparr>"

text \<open>
  \<^verbatim>\<open>WriteSpan\<close> serialises the document with the driver's \<^verbatim>\<open>Marshal\<close> and returns its
  error if there is one; otherwise it hands the bytes to the collection's
  \<^verbatim>\<open>InsertOne\<close> and returns that call's error (\<open>None\<close> is nil). Both are the
  driver's and are taken as parameters.
\<close>

definition WriteSpan ::
  "ExternalLib \<Rightarrow> (Span \<Rightarrow> error + 'b) \<Rightarrow> ('b \<Rightarrow> error option) \<Rightarrow> model_Span \<Rightarrow> error option" where
  "WriteSpan L Marshal InsertOne span =
     (case Marshal (mSpan L span) of
        Inl err \<Rightarrow> Some err
      | Inr b \<Rightarrow> InsertOne b)"

section \<open>The store seam\<close>

text \<open>
  Filters and options are BSON values: \<^verbatim>\<open>bson.M\<close> and \<^verbatim>\<open>bson.D\<close> are documents (a list
  of keyed values; assigning to a key of a \<^verbatim>\<open>bson.M\<close> replaces the value held under it),
  \<^verbatim>\<open>bson.A\<close> is an array.
\<close>

datatype bson =
    BNull
  | BString string
  | BBool bool
  | BInt64 "64 word"
  | BTime Time
  | BArr "bson list"
  | BDoc "(string \<times> bson) list"

record FindOptions =
  Projection :: "bson option"
  Sort :: "bson option"

text \<open>
  A cursor is the sequence of what \<^verbatim>\<open>Next\<close> followed by \<^verbatim>\<open>Decode\<close> yields, document by
  document (the decoded document, or the error of \<^verbatim>\<open>Decode\<close>), and the error \<^verbatim>\<open>Err\<close>
  reports once \<^verbatim>\<open>Next\<close> has returned false. \<^verbatim>\<open>ReaderStorage\<close> is the interface the
  reader queries; of its two methods the operations below use \<^verbatim>\<open>Find\<close>, which returns
  a pointer to a cursor and an error, each of which may be nil (\<open>None\<close>). The methods
  of a cursor read through the pointer: \<^verbatim>\<open>Next\<close> and \<^verbatim>\<open>Close\<close> on a nil cursor panic.
  Releasing a cursor that is there, the context and the tracing instrumentation are not
  modelled.
\<close>

record Cursor =
  cur_items :: "(error + Span) list"
  cur_Err :: "error option"

record ReaderStorage =
  Find :: "bson \<Rightarrow> FindOptions \<Rightarrow> Cursor option \<times> error option"

definition nil_dereference :: string where
  "nil_dereference = ''invalid memory address or nil pointer dereference''"

text \<open>The search parameters of the tracer's \<^verbatim>\<open>spanstore\<close> package. \<^verbatim>\<open>Tags\<close> is a map: it
  is given as the sequence of its entries in the order \<^verbatim>\<open>range\<close> visits them.\<close>

record TraceQueryParameters =
  ServiceName :: string
  OperationName :: string
  Tags :: "(string \<times> string) list"
  StartTimeMin :: Time
  StartTimeMax :: Time
  DurationMin :: Duration
  DurationMax :: Duration
  NumTraces :: int

section \<open>The span reader\<close>

definition maxTracesForDependencies :: int where
  "maxTracesForDependencies = 25000"

subsection \<open>Decoding a document\<close>

fun SpanReader_convertRefs :: "ExternalLib \<Rightarrow> Reference list \<Rightarrow> error + model_SpanRef list" where
  "SpanReader_convertRefs L [] = Inr []"
| "SpanReader_convertRefs L (r # refs) =
     (case (if ref_RefType r = ChildOf then Some model_ChildOf
            else if ref_RefType r = FollowsFrom then Some model_FollowsFrom
            else None) of
        None \<Rightarrow> Inl (Errorf (''not a valid SpanRefType string '' @ ref_RefType r))
      | Some refType \<Rightarrow>
         (case TraceIDFromString L (ref_TraceID r) of
            Inl err \<Rightarrow> Inl err
          | Inr traceID \<Rightarrow>
             (case SpanIDFromString L (ref_SpanID r) of
                Inl err \<Rightarrow> Inl err
              | Inr spanID \<Rightarrow>
                 (case SpanReader_convertRefs L refs of
                    Inl err \<Rightarrow> Inl err
                  | Inr retMe \<Rightarrow>
                      Inr (\<lparr>mref_TraceID = traceID, mref_SpanID = spanID, mref_RefType = refType\<rparr> # retMe)))))"

definition SpanReader_convertKeyValue :: "ExternalLib \<Rightarrow> KeyValue \<Rightarrow> error + model_KeyValue" where
  "SpanReader_convertKeyValue L tag =
     (case kv_Value tag of
        INil \<Rightarrow> Inl (Errorf ''invalid nil Value'')
      | IString tagValue \<Rightarrow>
          if kv_Type tag = StringType then Inr (model_String (kv_Key tag) tagValue)
          else if kv_Type tag = BoolType then
            (case ParseBool tagValue of
               Inl err \<Rightarrow> Inl err
             | Inr v \<Rightarrow> Inr (model_Bool (kv_Key tag) v))
          else if kv_Type tag = Int64Type then
            (case ParseInt tagValue of
               Inl err \<Rightarrow> Inl err
             | Inr v \<Rightarrow> Inr (model_Int64 (kv_Key tag) v))
          else if kv_Type tag = Float64Type then
            (case ParseFloat L tagValue of
               Inl err \<Rightarrow> Inl err
             | Inr v \<Rightarrow> Inr (model_Float64 (kv_Key tag) v))
          else Inl (Errorf (''not a valid ValueType string '' @ kv_Type tag))
      | IInt64 x \<Rightarrow> Inl (Errorf ''non-string Value'')
      | IBool x \<Rightarrow> Inl (Errorf ''non-string Value''))"

fun SpanReader_convertKeyValues :: "ExternalLib \<Rightarrow> KeyValue list \<Rightarrow> error + model_KeyValue list" where
  "SpanReader_convertKeyValues L [] = Inr []"
| "SpanReader_convertKeyValues L (tag # tags) =
     (case SpanReader_convertKeyValue L tag of
        Inl err \<Rightarrow> Inl err
      | Inr kv \<Rightarrow>
         (case SpanReader_convertKeyValues L tags of
            Inl err \<Rightarrow> Inl err
          | Inr retMe \<Rightarrow> Inr (kv # retMe)))"

fun SpanReader_convertLogs :: "ExternalLib \<Rightarrow> Log list \<Rightarrow> error + model_Log list" where
  "SpanReader_convertLogs L [] = Inr []"
| "SpanReader_convertLogs L (lg # logs) =
     (case SpanReader_convertKeyValues L (log_Fields lg) of
        Inl err \<Rightarrow> Inl err
      | Inr fs \<Rightarrow>
         (case SpanReader_convertLogs L logs of
            Inl err \<Rightarrow> Inl err
          | Inr convertedLogs \<Rightarrow>
              Inr (\<lparr>mlog_Timestamp = UnixMilli (log_Timestamp lg), mlog_Fields = fs\<rparr> # convertedLogs)))"

text \<open>
  The body of the loop of \<^verbatim>\<open>fetchTracesById\<close> from the decoded document \<^verbatim>\<open>ms\<close> to the
  domain span: the six conversions in the source's order, the first failure returned.
  The span's \<^verbatim>\<open>ProcessID\<close> is not set.
\<close>

definition fetchTracesById_span :: "ExternalLib \<Rightarrow> Span \<Rightarrow> error + model_Span" where
  "fetchTracesById_span L ms =
     (case TraceIDFromString L (span_TraceID ms) of
        Inl err \<Rightarrow> Inl err
      | Inr tId \<Rightarrow>
     (case SpanIDFromString L (span_SpanID ms) of
        Inl err \<Rightarrow> Inl err
      | Inr sId \<Rightarrow>
     (case SpanReader_convertRefs L (span_References ms) of
        Inl err \<Rightarrow> Inl err
      | Inr refs \<Rightarrow>
     (case SpanReader_convertKeyValues L (span_Tags ms) of
        Inl err \<Rightarrow> Inl err
      | Inr tags \<Rightarrow>
     (case SpanReader_convertKeyValues L (proc_Tags (span_Process ms)) of
        Inl err \<Rightarrow> Inl err
      | Inr pTags \<Rightarrow>
     (case SpanReader_convertLogs L (span_Logs ms) of
        Inl err \<Rightarrow> Inl err
      | Inr logs \<Rightarrow>
          Inr \<lparr>mspan_TraceID = tId,
               mspan_SpanID = sId,
               mspan_OperationName = span_OperationName ms,
               mspan_References = refs,
               mspan_StartTime = span_StartTime ms,
               mspan_Duration = MicrosecondsAsDuration (span_Duration ms),
               mspan_Tags = tags,
               mspan_Logs = logs,
               mspan_Process = \<lparr>mproc_ServiceName = proc_ServiceName (span_Process ms), mproc_Tags = pTags\<rparr>,
               mspan_ProcessID = [],
               mspan_Warnings = span_Warnings ms\<rparr>))))))"

subsection \<open>Fetching and grouping by trace id\<close>

text \<open>
  Go maps are association lists with distinct keys, in the order the keys were first
  assigned; Go leaves the order of \<^verbatim>\<open>range\<close> over a map open, and the theorems below
  speak of the entries, not of their order. \<open>tracesMap_append\<close> is the pair of statements
  that creates the trace of a new id and appends the span to the trace of its id.
\<close>

definition tracesMap_append :: "string \<Rightarrow> model_Span \<Rightarrow> (string \<times> model_Trace) list \<Rightarrow> (string \<times> model_Trace) list" where
  "tracesMap_append tid s tracesMap =
     (case map_of tracesMap tid of
        None \<Rightarrow> AList.update tid \<lparr>Spans = [s]\<rparr> tracesMap
      | Some trace \<Rightarrow> AList.update tid (trace\<lparr>Spans := Spans trace @ [s]\<rparr>) tracesMap)"

fun fetchTracesById_loop ::
  "ExternalLib \<Rightarrow> (error + Span) list \<Rightarrow> (string \<times> model_Trace) list \<Rightarrow> error + (string \<times> model_Trace) list" where
  "fetchTracesById_loop L [] tracesMap = Inr tracesMap"
| "fetchTracesById_loop L (Inl err # rest) tracesMap = Inl (Wrapf ''error decoding span: '' err)"
| "fetchTracesById_loop L (Inr ms # rest) tracesMap =
     (case fetchTracesById_span L ms of
        Inl err \<Rightarrow> Inl err
      | Inr s \<Rightarrow> fetchTracesById_loop L rest (tracesMap_append (span_TraceID ms) s tracesMap))"

text \<open>
  \<^verbatim>\<open>fetchTracesById\<close> tests the error of \<^verbatim>\<open>Find\<close> first and only then touches the
  cursor.
\<close>

definition fetchTracesById :: "ExternalLib \<Rightarrow> ReaderStorage \<Rightarrow> string list \<Rightarrow> (string \<times> model_Trace) list result" where
  "fetchTracesById L storage ids =
     (let filter = BDoc [(''traceID'', BDoc [(''$in'', BArr (map BString ids))])];
          findOpts = \<lparr>Projection = None, Sort = None\<rparr>
      in case Find storage filter findOpts of
           (cur, Some err) \<Rightarrow> Err (Wrapf ''error finding spans '' err)
         | (None, None) \<Rightarrow> Panic nil_dereference
         | (Some cur, None) \<Rightarrow>
            (case fetchTracesById_loop L (cur_items cur) [] of
               Inl err \<Rightarrow> Err err
             | Inr tracesMap \<Rightarrow>
                (case cur_Err cur of
                   Some err \<Rightarrow> Err (Wrapf ''error with finding span '' err)
                 | None \<Rightarrow> Ok tracesMap)))"


subsection \<open>Searching trace ids\<close>

text \<open>
  The filter \<^verbatim>\<open>findTraceIDs\<close> builds, statement by statement. \<open>tag_clause\<close> is the
  element its first loop appends for the entry \<open>(k, v)\<close> of the tag mapping.
\<close>

definition tag_clause :: "string \<Rightarrow> string \<Rightarrow> bson" where
  "tag_clause k v = BDoc [(''tags'', BDoc [(''$elemMatch'', BDoc [(''key'', BString k), (''value'', BString v)])])]"

definition findTraceIDs_filter :: "TraceQueryParameters \<Rightarrow> (string \<times> bson) list" where
  "findTraceIDs_filter query =
     (let filter = [];
          filter = AList.update ''startTime''
                     (BDoc [(''$gt'', BTime (StartTimeMin query)), (''$lt'', BTime (StartTimeMax query))]) filter;
          tags_array = map (\<lambda>(k, v). tag_clause k v) (Tags query);
          filter = (if length tags_array \<noteq> 0 then AList.update ''$and'' (BArr tags_array) filter else filter);
          filter = (if ServiceName query \<noteq> [] then AList.update ''process.serviceName'' (BString (ServiceName query)) filter
                    else filter);
          filter = (if OperationName query \<noteq> [] then AList.update ''operationName'' (BString (OperationName query)) filter
                    else filter);
          filter = (if DurationMax query \<noteq> 0
                    then AList.update ''duration'' (BDoc [(''$lte'', BInt64 (Microseconds (DurationMax query)))]) filter
                    else filter);
          filter = (if DurationMin query \<noteq> 0
                    then AList.update ''duration'' (BDoc [(''$gte'', BInt64 (Microseconds (DurationMin query)))]) filter
                    else filter);
          filter = (if DurationMax query \<noteq> 0 \<and> DurationMin query \<noteq> 0
                    then AList.update ''duration''
                           (BDoc [(''$lte'', BInt64 (Microseconds (DurationMax query))),
                                  (''$gte'', BInt64 (Microseconds (DurationMin query)))]) filter
                    else filter)
      in filter)"

definition findTraceIDs_opts :: FindOptions where
  "findTraceIDs_opts =
     \<lparr>Projection = Some (BDoc [(''traceID'', BInt64 1), (''_id'', BInt64 0)]),
      Sort = Some (BDoc [(''startTime'', BInt64 (- 1))])\<rparr>"

text \<open>
  The loop over the cursor: a document that does not decode ends the process
  (\<^verbatim>\<open>log.Fatal\<close>, here \<open>Inl\<close>); otherwise the trace id joins the set, and the loop stops
  once the set holds at least \<^verbatim>\<open>NumTraces\<close> ids.
\<close>

fun findTraceIDs_loop :: "int \<Rightarrow> (error + Span) list \<Rightarrow> string list \<Rightarrow> error + string list" where
  "findTraceIDs_loop n [] traceIds = Inr traceIds"
| "findTraceIDs_loop n (Inl err # rest) traceIds = Inl err"
| "findTraceIDs_loop n (Inr span # rest) traceIds =
     (let traceIds' = (if span_TraceID span \<in> set traceIds then traceIds else traceIds @ [span_TraceID span])
      in if n \<le> int (length traceIds') then Inr traceIds' else findTraceIDs_loop n rest traceIds')"

text \<open>
  \<^verbatim>\<open>findTraceIDs\<close> defers the cursor's \<^verbatim>\<open>Close\<close> before it tests the error of
  \<^verbatim>\<open>Find\<close>: with a nil cursor the deferred call panics when the function returns,
  whatever it was about to return. The error of the cursor is not read after the loop.
  Making the result slice with a negative capacity panics.
\<close>

definition findTraceIDs :: "ReaderStorage \<Rightarrow> TraceQueryParameters \<Rightarrow> string list result" where
  "findTraceIDs storage query =
     (case Find storage (BDoc (findTraceIDs_filter query)) findTraceIDs_opts of
        (None, err) \<Rightarrow> Panic nil_dereference
      | (Some cursor, Some err) \<Rightarrow> Err (Wrapf ''error getting traceIDs: '' err)
      | (Some cursor, None) \<Rightarrow>
         (case findTraceIDs_loop (NumTraces query) (cur_items cursor) [] of
            Inl err \<Rightarrow> Fatal err
          | Inr traceIds \<Rightarrow>
              if NumTraces query < 0 then Panic ''makeslice: cap out of range'' else Ok traceIds))"

definition FindTraces :: "ExternalLib \<Rightarrow> ReaderStorage \<Rightarrow> TraceQueryParameters \<Rightarrow> model_Trace list result" where
  "FindTraces L storage query =
     (case findTraceIDs storage query of
        Err err \<Rightarrow> Err err
      | Fatal err \<Rightarrow> Fatal err
      | Panic p \<Rightarrow> Panic p
      | Ok ids \<Rightarrow>
          if length ids = 0 then Ok []
          else (case fetchTracesById L storage ids of
                  Err err \<Rightarrow> Err err
                | Fatal err \<Rightarrow> Fatal err
                | Panic p \<Rightarrow> Panic p
                | Ok tracesMap \<Rightarrow> Ok (map snd tracesMap)))"



subsection \<open>The dependency graph\<close>

text \<open>
  \<^verbatim>\<open>serviceNameBySpanID\<close> is only ever read by indexing, which gives the empty string for
  an absent key: it is a total function, everywhere empty at first. The first pair of
  loops fills it, span by span.
\<close>

definition serviceNameBySpanID :: "model_Trace list \<Rightarrow> model_SpanID \<Rightarrow> string" where
  "serviceNameBySpanID traces =
     fold (\<lambda>trace m. fold (\<lambda>s m. m(mspan_SpanID s := mproc_ServiceName (mspan_Process s))) (Spans trace) m)
          traces (\<lambda>_. [])"

text \<open>
  One pass of the innermost loop body: for a child-of reference whose target has a
  non-empty service name on record, the link stored under the key \<^verbatim>\<open>parent+child\<close> is
  created with count 0 if absent, and its count is incremented.
\<close>

definition link_step :: "(model_SpanID \<Rightarrow> string) \<Rightarrow> model_Span \<Rightarrow> model_SpanRef \<Rightarrow> (string \<times> DependencyLink) list \<Rightarrow> (string \<times> DependencyLink) list" where
  "link_step names s ref m =
     (if mref_RefType ref = model_ChildOf \<and> names (mref_SpanID ref) \<noteq> [] then
        (let parent = names (mref_SpanID ref);
             child = mproc_ServiceName (mspan_Process s);
             dl = (case map_of m (parent @ child) of
                     None \<Rightarrow> \<lparr>Parent = parent, Child = child, CallCount = 0\<rparr>
                   | Some dl \<Rightarrow> dl)
         in AList.update (parent @ child) (dl\<lparr>CallCount := CallCount dl + 1\<rparr>) m)
      else m)"

definition links :: "model_Trace list \<Rightarrow> (string \<times> DependencyLink) list" where
  "links traces =
     fold (\<lambda>trace m. fold (\<lambda>s m. fold (link_step (serviceNameBySpanID traces) s) (mspan_References s) m) (Spans trace) m)
          traces []"

definition dls :: "model_Trace list \<Rightarrow> DependencyLink list" where
  "dls traces = filter (\<lambda>dl. Parent dl \<noteq> Child dl) (map snd (links traces))"

definition Time_Add :: "Time \<Rightarrow> Duration \<Rightarrow> Time" where
  "Time_Add t d = t + sint d"

definition GetDependencies_query :: "Time \<Rightarrow> Duration \<Rightarrow> TraceQueryParameters" where
  "GetDependencies_query endTs lookback =
     \<lparr>ServiceName = [], OperationName = [], Tags = [],
      StartTimeMin = Time_Add endTs (- 1 * lookback), StartTimeMax = endTs,
      DurationMin = 0, DurationMax = 0, NumTraces = maxTracesForDependencies\<rparr>"

text \<open>
  An error of the search is logged and the function goes on with the nil slice of traces;
  the function itself always returns a nil error.
\<close>

definition GetDependencies :: "ExternalLib \<Rightarrow> ReaderStorage \<Rightarrow> Time \<Rightarrow> Duration \<Rightarrow> DependencyLink list result" where
  "GetDependencies L storage endTs lookback =
     (case FindTraces L storage (GetDependencies_query endTs lookback) of
        Ok traces \<Rightarrow> Ok (dls traces)
      | Err err \<Rightarrow> Ok (dls [])
      | Fatal err \<Rightarrow> Fatal err
      | Panic p \<Rightarrow> Panic p)"

section \<open>The document store\<close>

text \<open>
  What the store does with a filter is the store's, not this program's. To say what a
  filter built by the reader selects, the store's matching of a filter against a document
  is written out for the operators the reader emits: a filter document holds when each of
  its entries holds; \<^verbatim>\<open>$and\<close> holds when every filter of its array holds; any other
  key is a dotted path into the document, whose value must equal the entry's value or,
  when that is a document of operators, satisfy each operator. \<^verbatim>\<open>$elemMatch\<close> holds of
  an array when one element matches the whole inner filter. Comparisons hold between
  two integers or two instants only.
\<close>

fun splitDot :: "string \<Rightarrow> string list" where
  "splitDot [] = [[]]"
| "splitDot (c # cs) =
     (if c = CHR ''.'' then [] # splitDot cs
      else (case splitDot cs of [] \<Rightarrow> [[c]] | w # ws \<Rightarrow> (c # w) # ws))"

fun getPath :: "string list \<Rightarrow> bson \<Rightarrow> bson option" where
  "getPath [] d = Some d"
| "getPath (k # ks) (BDoc fs) = (case map_of fs k of None \<Rightarrow> None | Some v \<Rightarrow> getPath ks v)"
| "getPath (k # ks) _ = None"

fun bson_less :: "bson \<Rightarrow> bson \<Rightarrow> bool" where
  "bson_less (BInt64 a) (BInt64 b) = (sint a < sint b)"
| "bson_less (BTime a) (BTime b) = (a < b)"
| "bson_less _ _ = False"

fun bson_le :: "bson \<Rightarrow> bson \<Rightarrow> bool" where
  "bson_le (BInt64 a) (BInt64 b) = (sint a \<le> sint b)"
| "bson_le (BTime a) (BTime b) = (a \<le> b)"
| "bson_le _ _ = False"

definition isOperatorDoc :: "(string \<times> bson) list \<Rightarrow> bool" where
  "isOperatorDoc ops = (ops \<noteq> [] \<and> list_all (\<lambda>kv. fst kv \<noteq> [] \<and> hd (fst kv) = CHR ''$'') ops)"

fun matches :: "bson \<Rightarrow> bson \<Rightarrow> bool"
  and matchesEntries :: "(string \<times> bson) list \<Rightarrow> bson \<Rightarrow> bool"
  and matchesAll :: "bson list \<Rightarrow> bson \<Rightarrow> bool"
  and matchesOps :: "(string \<times> bson) list \<Rightarrow> bson \<Rightarrow> bool"
  and matchesAny :: "bson \<Rightarrow> bson list \<Rightarrow> bool" where
  "matches (BDoc fs) d = matchesEntries fs d"
| "matches BNull d = False"
| "matches (BString s) d = False"
| "matches (BBool b) d = False"
| "matches (BInt64 i) d = False"
| "matches (BTime t) d = False"
| "matches (BArr xs) d = False"
| "matchesEntries [] d = True"
| "matchesEntries ((k, c) # fs) d =
     ((if k = ''$and'' then (case c of BArr qs \<Rightarrow> matchesAll qs d | _ \<Rightarrow> False)
       else (case getPath (splitDot k) d of
               None \<Rightarrow> False
             | Some v \<Rightarrow>
                (case c of
                   BDoc ops \<Rightarrow> if isOperatorDoc ops then matchesOps ops v else v = c
                 | _ \<Rightarrow> v = c)))
      \<and> matchesEntries fs d)"
| "matchesAll [] d = True"
| "matchesAll (q # qs) d = (matches q d \<and> matchesAll qs d)"
| "matchesOps [] v = True"
| "matchesOps ((op, arg) # ops) v =
     ((if op = ''$gt'' then bson_less arg v
       else if op = ''$lt'' then bson_less v arg
       else if op = ''$gte'' then bson_le arg v
       else if op = ''$lte'' then bson_le v arg
       else if op = ''$in'' then (case arg of BArr xs \<Rightarrow> v \<in> set xs | _ \<Rightarrow> False)
       else if op = ''$elemMatch'' then (case v of BArr es \<Rightarrow> matchesAny arg es | _ \<Rightarrow> False)
       else False)
      \<and> matchesOps ops v)"
| "matchesAny q [] = False"
| "matchesAny q (e # es) = (matches q e \<or> matchesAny q es)"



text \<open>
  A span document as the driver stores it, field by field under the names of the struct
  tags (a tag's type is left out when empty).
\<close>

definition bson_of_iface :: "iface \<Rightarrow> bson" where
  "bson_of_iface v = (case v of INil \<Rightarrow> BNull | IString s \<Rightarrow> BString s | IInt64 i \<Rightarrow> BInt64 i | IBool b \<Rightarrow> BBool b)"

definition bson_of_KeyValue :: "KeyValue \<Rightarrow> bson" where
  "bson_of_KeyValue kv =
     BDoc ([(''key'', BString (kv_Key kv))]
           @ (if kv_Type kv = [] then [] else [(''type'', BString (kv_Type kv))])
           @ [(''value'', bson_of_iface (kv_Value kv))])"

definition bson_of_Reference :: "Reference \<Rightarrow> bson" where
  "bson_of_Reference r =
     BDoc [(''refType'', BString (ref_RefType r)), (''traceID'', BString (ref_TraceID r)),
           (''spanID'', BString (ref_SpanID r))]"

definition bson_of_Process :: "Process \<Rightarrow> bson" where
  "bson_of_Process p =
     BDoc [(''serviceName'', BString (proc_ServiceName p)), (''tags'', BArr (map bson_of_KeyValue (proc_Tags p)))]"

definition bson_of_Log :: "Log \<Rightarrow> bson" where
  "bson_of_Log l =
     BDoc [(''timestamp'', BInt64 (log_Timestamp l)), (''fields'', BArr (map bson_of_KeyValue (log_Fields l)))]"

definition bson_of_Span :: "Span \<Rightarrow> bson" where
  "bson_of_Span d =
     BDoc [(''traceID'', BString (span_TraceID d)),
           (''spanID'', BString (span_SpanID d)),
           (''operationName'', BString (span_OperationName d)),
           (''startTime'', BTime (span_StartTime d)),
           (''duration'', BInt64 (span_Duration d)),
           (''references'', BArr (map bson_of_Reference (span_References d))),
           (''processID'', BString (span_ProcessID d)),
           (''process'', bson_of_Process (span_Process d)),
           (''tags'', BArr (map bson_of_KeyValue (span_Tags d))),
           (''logs'', BArr (map bson_of_Log (span_Logs d))),
           (''warnings'', BArr (map BString (span_Warnings d)))]"

text \<open>
  A store held in memory: \<^verbatim>\<open>Find\<close> answers with the documents the filter matches, in
  stored order or, when the options ask for it, by descending start time (stably), each
  reduced to its trace id when the options project on it. It never fails.
\<close>

definition project :: "bson option \<Rightarrow> Span \<Rightarrow> Span" where
  "project p d =
     (if p = Some (BDoc [(''traceID'', BInt64 1), (''_id'', BInt64 0)])
      then \<lparr>span_TraceID = span_TraceID d, span_SpanID = [], span_OperationName = [], span_StartTime = 0,
            span_Duration = 0, span_References = [], span_ProcessID = [],
            span_Process = \<lparr>proc_ServiceName = [], proc_Tags = []\<rparr>, span_Tags = [], span_Logs = [],
            span_Warnings = []\<rparr>
      else d)"

definition sortDocs :: "bson option \<Rightarrow> Span list \<Rightarrow> Span list" where
  "sortDocs srt docs =
     (if srt = Some (BDoc [(''startTime'', BInt64 (- 1))]) then sort_key (\<lambda>d. - span_StartTime d) docs else docs)"

definition MemoryStorage :: "Span list \<Rightarrow> ReaderStorage" where
  "MemoryStorage docs =
     \<lparr>Find = (\<lambda>flt opts.
        (Some \<lparr>cur_items = map (\<lambda>d. Inr (project (Projection opts) d))
                                (sortDocs (Sort opts) (filter (\<lambda>d. matches flt (bson_of_Span d)) docs)),
               cur_Err = None\<rparr>,
         None))\<rparr>"

section \<open>A stand-in for the libraries\<close>

text \<open>
  To run the program on concrete spans the library parameters need values. In this
  stand-in a 64-bit identifier is printed as sixteen lowercase hexadecimal digits and a
  trace id as its low half, preceded by its high half unless that is zero; parsing reads
  up to sixteen (for a trace id, thirty-two) hexadecimal digits. A float is printed as the
  hexadecimal digits of its bit pattern, which stands for a formatter that loses nothing.
\<close>

fun hex_digits :: "nat \<Rightarrow> int \<Rightarrow> string" where
  "hex_digits 0 n = []"
| "hex_digits (Suc k) n = hex_digits k (n div 16) @ [hex_digit (n mod 16)]"

definition hex16 :: "64 word \<Rightarrow> string" where
  "hex16 w = hex_digits 16 (uint w)"

definition hex_val :: "char \<Rightarrow> int option" where
  "hex_val c =
     (let n = (of_char c :: int)
      in if 48 \<le> n \<and> n \<le> 57 then Some (n - 48)
         else if 97 \<le> n \<and> n \<le> 102 then Some (n - 87)
         else if 65 \<le> n \<and> n \<le> 70 then Some (n - 55)
         else None)"

fun parse_hex :: "int \<Rightarrow> string \<Rightarrow> int option" where
  "parse_hex acc [] = Some acc"
| "parse_hex acc (c # cs) = (case hex_val c of None \<Rightarrow> None | Some d \<Rightarrow> parse_hex (acc * 16 + d) cs)"

definition ParseHex64 :: "string \<Rightarrow> error + 64 word" where
  "ParseHex64 s =
     (if s = [] then Inl (LibError ''invalid syntax'')
      else case parse_hex 0 s of
             None \<Rightarrow> Inl (LibError ''invalid syntax'')
           | Some n \<Rightarrow> if n < 2 ^ 64 then Inr (word_of_int n) else Inl (LibError ''value out of range''))"

definition hexLib :: ExternalLib where
  "hexLib =
     \<lparr>TraceID_String = (\<lambda>t. if High t = 0 then hex16 (Low t) else hex16 (High t) @ hex16 (Low t)),
      TraceIDFromString = (\<lambda>s.
        if 32 < length s then Inl (LibError ''TraceID cannot be longer than 32 hex characters'')
        else if 16 < length s then
          (case ParseHex64 (take (length s - 16) s) of
             Inl e \<Rightarrow> Inl e
           | Inr hi \<Rightarrow> (case ParseHex64 (drop (length s - 16) s) of
                          Inl e \<Rightarrow> Inl e
                        | Inr lo \<Rightarrow> Inr \<lparr>High = hi, Low = lo\<rparr>))
        else (case ParseHex64 s of Inl e \<Rightarrow> Inl e | Inr lo \<Rightarrow> Inr \<lparr>High = 0, Low = lo\<rparr>)),
      SpanID_String = hex16,
      SpanIDFromString = (\<lambda>s.
        if 16 < length s then Inl (LibError ''SpanID cannot be longer than 16 hex characters'')
        else ParseHex64 s),
      FormatFloat = hex16,
      ParseFloat = ParseHex64\<rparr>"

section \<open>Sample spans\<close>

text \<open>
  Spans to run the program on: span \<open>i\<close> of trace \<open>i\<close>, of a given service, with given
  references, one integer tag, started at instant 1000 and lasting 5000 nanoseconds.
\<close>

definition sample_ref :: "64 word \<Rightarrow> SpanRefType \<Rightarrow> model_SpanRef" where
  "sample_ref i k = \<lparr>mref_TraceID = \<lparr>High = 0, Low = i\<rparr>, mref_SpanID = i, mref_RefType = k\<rparr>"

definition sample_span :: "64 word \<Rightarrow> string \<Rightarrow> model_SpanRef list \<Rightarrow> model_Span" where
  "sample_span i svc refs =
     \<lparr>mspan_TraceID = \<lparr>High = 0, Low = i\<rparr>, mspan_SpanID = i,
      mspan_OperationName = ''op'', mspan_References = refs, mspan_StartTime = 1000,
      mspan_Duration = 5000, mspan_Tags = [model_Int64 ''http.status_code'' 200],
      mspan_Logs = [], mspan_Process = \<lparr>mproc_ServiceName = svc, mproc_Tags = []\<rparr>,
      mspan_ProcessID = [], mspan_Warnings = []\<rparr>"

text \<open>
  Spans of one trace: span \<open>i\<close> of trace \<open>t\<close>, and a child-of reference to span \<open>i\<close>
  of trace \<open>t\<close>.
\<close>

definition trace_span :: "64 word \<Rightarrow> 64 word \<Rightarrow> string \<Rightarrow> model_SpanRef list \<Rightarrow> model_Span" where
  "trace_span t i svc refs = (sample_span i svc refs)\<lparr>mspan_TraceID := \<lparr>High = 0, Low = t\<rparr>\<rparr>"

definition child_of :: "64 word \<Rightarrow> 64 word \<Rightarrow> model_SpanRef" where
  "child_of t i = \<lparr>mref_TraceID = \<lparr>High = 0, Low = t\<rparr>, mref_SpanID = i, mref_RefType = model_ChildOf\<rparr>"

text \<open>
  A query over the instants 0 to 2000 with given tags, duration bounds and limit, and a
  stored document with given tags.
\<close>

definition sample_query :: "(string \<times> string) list \<Rightarrow> Duration \<Rightarrow> Duration \<Rightarrow> int \<Rightarrow> TraceQueryParameters" where
  "sample_query tags dmin dmax n =
     \<lparr>ServiceName = [], OperationName = [], Tags = tags, StartTimeMin = 0, StartTimeMax = 2000,
      DurationMin = dmin, DurationMax = dmax, NumTraces = n\<rparr>"

definition sample_doc :: "64 word \<Rightarrow> KeyValue list \<Rightarrow> Span" where
  "sample_doc i tags = (mSpan hexLib (sample_span i ''a'' []))\<lparr>span_Tags := tags\<rparr>"

section \<open>Reference kinds and failures of the store\<close>

lemma convertRefs_write_read:
  "(\<forall>r\<in>set refs. TraceIDFromString L (TraceID_String L (mref_TraceID r)) = Inr (mref_TraceID r)
                  \<and> SpanIDFromString L (SpanID_String L (mref_SpanID r)) = Inr (mref_SpanID r))
   \<Longrightarrow> SpanReader_convertRefs L
         (map (\<lambda>ref. \<lparr>ref_RefType = convertRefType (mref_RefType ref),
                      ref_TraceID = TraceID_String L (mref_TraceID ref),
                      ref_SpanID = SpanID_String L (mref_SpanID ref)\<rparr>) refs)
       = Inr (map (\<lambda>r. r\<lparr>mref_RefType := (if mref_RefType r = model_FollowsFrom then model_FollowsFrom else model_ChildOf)\<rparr>) refs)"
  by (induction refs) (auto simp: convertRefType_def ChildOf_def FollowsFrom_def)

lemma mSpan_kind_irrelevant:
  "k \<noteq> model_FollowsFrom \<Longrightarrow>
   mSpan L (sample_span i svc [sample_ref j k]) = mSpan L (sample_span i svc [sample_ref j model_ChildOf])"
  by (simp add: mSpan_def sample_span_def sample_ref_def convertReferences_def convertRefType_def
      model_ChildOf_def model_FollowsFrom_def convertProcess_def)

lemma sample_dependency_child_of:
  "GetDependencies hexLib
       (MemoryStorage (map (mSpan hexLib) [sample_span 0 ''a'' [], sample_span 1 ''b'' [sample_ref 0 model_ChildOf]]))
       2000 5000
     = Ok [\<lparr>Parent = ''a'', Child = ''b'', CallCount = 1\<rparr>]"
  by code_simp

lemma sample_dependency_follows_from:
  "GetDependencies hexLib
       (MemoryStorage (map (mSpan hexLib) [sample_span 0 ''a'' [], sample_span 1 ''b'' [sample_ref 0 model_FollowsFrom]]))
       2000 5000
     = Ok []"
  by code_simp

text \<open>
  C10. Encoding a span cannot fail on a reference's kind: \<open>mSpan\<close> is a total function with
  no error outcome, and it keeps one stored reference per reference of the span. A
  reference of any kind other than follows-from, the kinds outside the enumeration
  included, is stored with the kind child-of, which is a kind distinct from follows-from.
  Read back (where the library parses the identifiers it printed), such a reference has
  the kind child-of, whatever its kind was. It then counts for the dependency graph: of
  two stored spans of services \<open>a\<close> and \<open>b\<close>, the second referring to the first with any
  kind \<open>k\<close> other than follows-from, \<open>GetDependencies\<close> reports the edge from \<open>a\<close> to \<open>b\<close>
  with call count 1, where a follows-from reference gives no edge.
\<close>

theorem unknown_reference_kind_becomes_child_of:
  "length (span_References (mSpan L span)) = length (mspan_References span)
   \<and> (\<forall>i < length (mspan_References span).
        mref_RefType (mspan_References span ! i) \<noteq> model_FollowsFrom
        \<longrightarrow> ref_RefType (span_References (mSpan L span) ! i) = ChildOf)
   \<and> ChildOf \<noteq> FollowsFrom
   \<and> ((\<forall>r\<in>set (mspan_References span).
          TraceIDFromString L (TraceID_String L (mref_TraceID r)) = Inr (mref_TraceID r)
          \<and> SpanIDFromString L (SpanID_String L (mref_SpanID r)) = Inr (mref_SpanID r))
        \<longrightarrow> SpanReader_convertRefs L (span_References (mSpan L span))
            = Inr (map (\<lambda>r. r\<lparr>mref_RefType :=
                                 (if mref_RefType r = model_FollowsFrom then model_FollowsFrom else model_ChildOf)\<rparr>)
                       (mspan_References span)))
   \<and> (k \<noteq> model_FollowsFrom
        \<longrightarrow> GetDependencies hexLib
              (MemoryStorage (map (mSpan hexLib) [sample_span 0 ''a'' [], sample_span 1 ''b'' [sample_ref 0 k]]))
              2000 5000
            = Ok [\<lparr>Parent = ''a'', Child = ''b'', CallCount = 1\<rparr>])
   \<and> GetDependencies hexLib
         (MemoryStorage (map (mSpan hexLib) [sample_span 0 ''a'' [], sample_span 1 ''b'' [sample_ref 0 model_FollowsFrom]]))
         2000 5000
       = Ok []"
proof (intro conjI impI)
  show "length (span_References (mSpan L span)) = length (mspan_References span)"
    by (simp add: mSpan_def convertReferences_def)
  show "\<forall>i < length (mspan_References span).
        mref_RefType (mspan_References span ! i) \<noteq> model_FollowsFrom
        \<longrightarrow> ref_RefType (span_References (mSpan L span) ! i) = ChildOf"
    by (simp add: mSpan_def convertReferences_def convertRefType_def)
  show "ChildOf \<noteq> FollowsFrom"
    by (simp add: ChildOf_def FollowsFrom_def)
next
  assume "\<forall>r\<in>set (mspan_References span).
          TraceIDFromString L (TraceID_String L (mref_TraceID r)) = Inr (mref_TraceID r)
          \<and> SpanIDFromString L (SpanID_String L (mref_SpanID r)) = Inr (mref_SpanID r)"
  then show "SpanReader_convertRefs L (span_References (mSpan L span))
            = Inr (map (\<lambda>r. r\<lparr>mref_RefType :=
                                 (if mref_RefType r = model_FollowsFrom then model_FollowsFrom else model_ChildOf)\<rparr>)
                       (mspan_References span))"
    using convertRefs_write_read [of "mspan_References span" L]
    by (simp add: mSpan_def convertReferences_def)
next
  assume "k \<noteq> model_FollowsFrom"
  then show "GetDependencies hexLib
              (MemoryStorage (map (mSpan hexLib) [sample_span 0 ''a'' [], sample_span 1 ''b'' [sample_ref 0 k]]))
              2000 5000
            = Ok [\<lparr>Parent = ''a'', Child = ''b'', CallCount = 1\<rparr>]"
    using sample_dependency_child_of by (simp add: mSpan_kind_irrelevant)
next
  show "GetDependencies hexLib
         (MemoryStorage (map (mSpan hexLib) [sample_span 0 ''a'' [], sample_span 1 ''b'' [sample_ref 0 model_FollowsFrom]]))
         2000 5000
       = Ok []"
    by (rule sample_dependency_follows_from)
qed

theorem unknown_reference_kind_becomes_child_of_witness:
  "mref_RefType (mspan_References (sample_span 1 ''b'' [sample_ref 0 7]) ! 0) \<noteq> model_FollowsFrom
   \<and> span_References (mSpan hexLib (sample_span 1 ''b'' [sample_ref 0 7]))
       = [\<lparr>ref_RefType = ''CHILD_OF'', ref_TraceID = ''0000000000000000'', ref_SpanID = ''0000000000000000''\<rparr>]
   \<and> SpanReader_convertRefs hexLib (span_References (mSpan hexLib (sample_span 1 ''b'' [sample_ref 0 7])))
       = Inr [sample_ref 0 model_ChildOf]
   \<and> GetDependencies hexLib
         (MemoryStorage (map (mSpan hexLib) [sample_span 0 ''a'' [], sample_span 1 ''b'' [sample_ref 0 7]]))
         2000 5000
       = Ok [\<lparr>Parent = ''a'', Child = ''b'', CallCount = 1\<rparr>]"
proof -
  let ?s = "sample_span 1 ''b'' [sample_ref 0 7]"
  note inst = unknown_reference_kind_becomes_child_of [of hexLib ?s 7]
  have k: "mref_RefType (mspan_References ?s ! 0) \<noteq> model_FollowsFrom"
    by (simp add: sample_span_def sample_ref_def model_FollowsFrom_def)
  have k7: "(7 :: 32 word) \<noteq> model_FollowsFrom"
    by (simp add: model_FollowsFrom_def)
  have n: "0 < length (mspan_References ?s)"
    by (simp add: sample_span_def)
  have ids: "\<forall>r\<in>set (mspan_References ?s).
          TraceIDFromString hexLib (TraceID_String hexLib (mref_TraceID r)) = Inr (mref_TraceID r)
          \<and> SpanIDFromString hexLib (SpanID_String hexLib (mref_SpanID r)) = Inr (mref_SpanID r)"
    by code_simp
  from inst n k have "ref_RefType (span_References (mSpan hexLib ?s) ! 0) = ChildOf"
    by blast
  moreover have "span_References (mSpan hexLib ?s)
       = [\<lparr>ref_RefType = ''CHILD_OF'', ref_TraceID = ''0000000000000000'', ref_SpanID = ''0000000000000000''\<rparr>]"
    by code_simp
  moreover from inst ids have "SpanReader_convertRefs hexLib (span_References (mSpan hexLib ?s))
       = Inr (map (\<lambda>r. r\<lparr>mref_RefType :=
                                 (if mref_RefType r = model_FollowsFrom then model_FollowsFrom else model_ChildOf)\<rparr>)
                       (mspan_References ?s))"
    by blast
  then have "SpanReader_convertRefs hexLib (span_References (mSpan hexLib ?s)) = Inr [sample_ref 0 model_ChildOf]"
    by (simp add: sample_span_def sample_ref_def model_FollowsFrom_def)
  moreover from inst k7 have "GetDependencies hexLib
         (MemoryStorage (map (mSpan hexLib) [sample_span 0 ''a'' [], sample_span 1 ''b'' [sample_ref 0 7]]))
         2000 5000
       = Ok [\<lparr>Parent = ''a'', Child = ''b'', CallCount = 1\<rparr>]"
    by blast
  ultimately show ?thesis using k by simp
qed

text \<open>
  C3. \<open>GetDependencies\<close> never returns an error, whatever the store does. When the search
  of the store fails with error \<open>err\<close> and a cursor, \<open>FindTraces\<close> returns \<open>err\<close> wrapped,
  and \<open>GetDependencies\<close>, which calls it, returns the empty list of edges and no error.
  When the search fails without a cursor, \<open>GetDependencies\<close> panics. The same holds when
  the search succeeds and the fetch of the spans of the found traces fails.
\<close>

theorem GetDependencies_swallows_fetch_failure:
  "GetDependencies L storage endTs lookback \<noteq> Err e
   \<and> FindTraces L \<lparr>Find = (\<lambda>flt opts. (Some cur, Some err))\<rparr> (GetDependencies_query endTs lookback)
       = Err (Wrapf ''error getting traceIDs: '' err)
   \<and> GetDependencies L \<lparr>Find = (\<lambda>flt opts. (Some cur, Some err))\<rparr> endTs lookback = Ok []
   \<and> GetDependencies L \<lparr>Find = (\<lambda>flt opts. (None, Some err))\<rparr> endTs lookback = Panic nil_dereference
   \<and> FindTraces hexLib
        \<lparr>Find = (\<lambda>flt opts. if Projection opts = None then (None, Some err)
                             else Find (MemoryStorage [mSpan hexLib (sample_span 0 ''a'' [])]) flt opts)\<rparr>
        (GetDependencies_query 2000 5000)
       = Err (Wrapf ''error finding spans '' err)
   \<and> GetDependencies hexLib
        \<lparr>Find = (\<lambda>flt opts. if Projection opts = None then (None, Some err)
                             else Find (MemoryStorage [mSpan hexLib (sample_span 0 ''a'' [])]) flt opts)\<rparr>
        2000 5000
       = Ok []"
proof (intro conjI)
  show "GetDependencies L storage endTs lookback \<noteq> Err e"
    by (simp add: GetDependencies_def split: result.split)
  show "FindTraces L \<lparr>Find = (\<lambda>flt opts. (Some cur, Some err))\<rparr> (GetDependencies_query endTs lookback)
       = Err (Wrapf ''error getting traceIDs: '' err)"
    by (simp add: FindTraces_def findTraceIDs_def)
  show "GetDependencies L \<lparr>Find = (\<lambda>flt opts. (Some cur, Some err))\<rparr> endTs lookback = Ok []"
    by (simp add: GetDependencies_def FindTraces_def findTraceIDs_def dls_def links_def)
  show "GetDependencies L \<lparr>Find = (\<lambda>flt opts. (None, Some err))\<rparr> endTs lookback = Panic nil_dereference"
    by (simp add: GetDependencies_def FindTraces_def findTraceIDs_def)
  have ids: "findTraceIDs
        \<lparr>Find = (\<lambda>flt opts. if Projection opts = None then (None, Some err)
                             else Find (MemoryStorage [mSpan hexLib (sample_span 0 ''a'' [])]) flt opts)\<rparr>
        (GetDependencies_query 2000 5000) = Ok [''0000000000000000'']"
    by code_simp
  show f: "FindTraces hexLib
        \<lparr>Find = (\<lambda>flt opts. if Projection opts = None then (None, Some err)
                             else Find (MemoryStorage [mSpan hexLib (sample_span 0 ''a'' [])]) flt opts)\<rparr>
        (GetDependencies_query 2000 5000)
       = Err (Wrapf ''error finding spans '' err)"
    by (simp add: FindTraces_def ids fetchTracesById_def)
  show "GetDependencies hexLib
        \<lparr>Find = (\<lambda>flt opts. if Projection opts = None then (None, Some err)
                             else Find (MemoryStorage [mSpan hexLib (sample_span 0 ''a'' [])]) flt opts)\<rparr>
        2000 5000
       = Ok []"
    by (simp add: GetDependencies_def f dls_def links_def)
qed

section \<open>The search filter\<close>

lemma matchesEntries_append:
  "matchesEntries (xs @ ys) d = (matchesEntries xs d \<and> matchesEntries ys d)"
  by (induction xs) auto

lemma bson_of_iface_BString: "(bson_of_iface x = BString v) = (x = IString v)"
  by (cases x) (auto simp: bson_of_iface_def)

lemma matchesAny_tag:
  "matchesAny (BDoc [(''key'', BString k), (''value'', BString v)]) (map bson_of_KeyValue ts)
   = (\<exists>t\<in>set ts. kv_Key t = k \<and> kv_Value t = IString v)"
  by (induction ts) (auto simp: bson_of_KeyValue_def bson_of_iface_BString)

lemma matches_tag_clause:
  "matches (tag_clause k v) (bson_of_Span d)
   = (\<exists>t\<in>set (span_Tags d). kv_Key t = k \<and> kv_Value t = IString v)"
  by (simp add: tag_clause_def bson_of_Span_def isOperatorDoc_def matchesAny_tag)

lemma findTraceIDs_filter_eq:
  "findTraceIDs_filter q =
     [(''startTime'', BDoc [(''$gt'', BTime (StartTimeMin q)), (''$lt'', BTime (StartTimeMax q))])]
     @ (if Tags q \<noteq> [] then [(''$and'', BArr (map (\<lambda>(k, v). tag_clause k v) (Tags q)))] else [])
     @ (if ServiceName q \<noteq> [] then [(''process.serviceName'', BString (ServiceName q))] else [])
     @ (if OperationName q \<noteq> [] then [(''operationName'', BString (OperationName q))] else [])
     @ (if DurationMax q \<noteq> 0 \<and> DurationMin q \<noteq> 0
        then [(''duration'', BDoc [(''$lte'', BInt64 (Microseconds (DurationMax q))),
                                   (''$gte'', BInt64 (Microseconds (DurationMin q)))])]
        else if DurationMin q \<noteq> 0 then [(''duration'', BDoc [(''$gte'', BInt64 (Microseconds (DurationMin q)))])]
        else if DurationMax q \<noteq> 0 then [(''duration'', BDoc [(''$lte'', BInt64 (Microseconds (DurationMax q)))])]
        else [])"
  by (simp add: findTraceIDs_filter_def)

lemma matchesAll_tag_clauses:
  "matchesAll (map (\<lambda>(k, v). tag_clause k v) tags) (bson_of_Span d)
   = (\<forall>(k, v)\<in>set tags. \<exists>t\<in>set (span_Tags d). kv_Key t = k \<and> kv_Value t = IString v)"
  by (induction tags) (auto simp: matches_tag_clause)

lemma matches_filter_iff:
  "matches (BDoc (findTraceIDs_filter q)) (bson_of_Span d) =
     (StartTimeMin q < span_StartTime d \<and> span_StartTime d < StartTimeMax q
      \<and> (\<forall>(k, v)\<in>set (Tags q). \<exists>t\<in>set (span_Tags d). kv_Key t = k \<and> kv_Value t = IString v)
      \<and> (ServiceName q \<noteq> [] \<longrightarrow> proc_ServiceName (span_Process d) = ServiceName q)
      \<and> (OperationName q \<noteq> [] \<longrightarrow> span_OperationName d = OperationName q)
      \<and> (DurationMax q \<noteq> 0 \<longrightarrow> sint (span_Duration d) \<le> sint (Microseconds (DurationMax q)))
      \<and> (DurationMin q \<noteq> 0 \<longrightarrow> sint (Microseconds (DurationMin q)) \<le> sint (span_Duration d)))"
proof -
  have st: "matchesEntries [(''startTime'', BDoc [(''$gt'', BTime (StartTimeMin q)), (''$lt'', BTime (StartTimeMax q))])] (bson_of_Span d)
            = (StartTimeMin q < span_StartTime d \<and> span_StartTime d < StartTimeMax q)"
    by (simp add: bson_of_Span_def isOperatorDoc_def)
  have tg: "matchesEntries (if Tags q \<noteq> [] then [(''$and'', BArr (map (\<lambda>(k, v). tag_clause k v) (Tags q)))] else []) (bson_of_Span d)
            = (\<forall>(k, v)\<in>set (Tags q). \<exists>t\<in>set (span_Tags d). kv_Key t = k \<and> kv_Value t = IString v)"
    by (simp add: matchesAll_tag_clauses)
  have sv: "matchesEntries (if ServiceName q \<noteq> [] then [(''process.serviceName'', BString (ServiceName q))] else []) (bson_of_Span d)
            = (ServiceName q \<noteq> [] \<longrightarrow> proc_ServiceName (span_Process d) = ServiceName q)"
    by (simp add: bson_of_Span_def bson_of_Process_def)
  have op: "matchesEntries (if OperationName q \<noteq> [] then [(''operationName'', BString (OperationName q))] else []) (bson_of_Span d)
            = (OperationName q \<noteq> [] \<longrightarrow> span_OperationName d = OperationName q)"
    by (simp add: bson_of_Span_def)
  have du: "matchesEntries (if DurationMax q \<noteq> 0 \<and> DurationMin q \<noteq> 0
        then [(''duration'', BDoc [(''$lte'', BInt64 (Microseconds (DurationMax q))),
                                   (''$gte'', BInt64 (Microseconds (DurationMin q)))])]
        else if DurationMin q \<noteq> 0 then [(''duration'', BDoc [(''$gte'', BInt64 (Microseconds (DurationMin q)))])]
        else if DurationMax q \<noteq> 0 then [(''duration'', BDoc [(''$lte'', BInt64 (Microseconds (DurationMax q)))])]
        else []) (bson_of_Span d)
            = ((DurationMax q \<noteq> 0 \<longrightarrow> sint (span_Duration d) \<le> sint (Microseconds (DurationMax q)))
               \<and> (DurationMin q \<noteq> 0 \<longrightarrow> sint (Microseconds (DurationMin q)) \<le> sint (span_Duration d)))"
    by (simp add: bson_of_Span_def isOperatorDoc_def)
  show ?thesis
    unfolding matches.simps findTraceIDs_filter_eq matchesEntries_append st tg sv op du by simp
qed

lemma findTraceIDs_loop_subset:
  "findTraceIDs_loop n (map Inr ds) acc = Inr ids \<Longrightarrow> set ids \<subseteq> set acc \<union> span_TraceID ` set ds"
proof (induction ds arbitrary: acc)
  case Nil
  then show ?case by simp
next
  case (Cons d ds)
  then show ?case
    by (fastforce simp: Let_def split: if_splits)
qed

lemma set_sortDocs: "set (sortDocs srt docs) = set docs"
  by (simp add: sortDocs_def)

lemma span_TraceID_project: "span_TraceID (project p d) = span_TraceID d"
  by (simp add: project_def)

lemma findTraceIDs_MemoryStorage_sound:
  assumes "findTraceIDs (MemoryStorage docs) q = Ok ids" and "i \<in> set ids"
  shows "\<exists>d\<in>set docs. span_TraceID d = i \<and> matches (BDoc (findTraceIDs_filter q)) (bson_of_Span d)"
proof -
  let ?ds = "map (project (Projection findTraceIDs_opts))
               (sortDocs (Sort findTraceIDs_opts) (filter (\<lambda>d. matches (BDoc (findTraceIDs_filter q)) (bson_of_Span d)) docs))"
  from assms(1) have "findTraceIDs_loop (NumTraces q) (map Inr ?ds) [] = Inr ids"
    by (simp add: findTraceIDs_def MemoryStorage_def comp_def split: sum.splits if_splits)
  from findTraceIDs_loop_subset [OF this] assms(2)
  have "i \<in> span_TraceID ` set ?ds" by auto
  then show ?thesis
    by (auto simp: set_sortDocs span_TraceID_project)
qed

text \<open>
  C6. For a query with a non-empty tag mapping, the filter holds under \<^verbatim>\<open>$and\<close> one clause
  per entry of the mapping, in the order of the entries. The clause of \<open>(k, v)\<close> holds of a
  span document exactly when one of the document's own tags has key \<open>k\<close> and value \<open>v\<close>;
  the \<^verbatim>\<open>$and\<close> holds of a document exactly when that document carries every requested
  pair; and a document the whole filter matches carries every requested pair. The filter
  is applied document by document, so the pairs cannot be gathered from different spans:
  over the store held in memory, every trace id the search returns is the trace id of one
  stored span that carries every requested pair.
\<close>

theorem tag_filter_requires_every_pair_on_one_span:
  assumes "Tags q \<noteq> []"
  shows "map_of (findTraceIDs_filter q) ''$and'' = Some (BArr (map (\<lambda>(k, v). tag_clause k v) (Tags q)))
         \<and> (\<forall>k v d. matches (tag_clause k v) (bson_of_Span d)
                      = (\<exists>t\<in>set (span_Tags d). kv_Key t = k \<and> kv_Value t = IString v))
         \<and> (\<forall>d. matches (BDoc [(''$and'', BArr (map (\<lambda>(k, v). tag_clause k v) (Tags q)))]) (bson_of_Span d)
                  = (\<forall>(k, v)\<in>set (Tags q). \<exists>t\<in>set (span_Tags d). kv_Key t = k \<and> kv_Value t = IString v))
         \<and> (\<forall>d. matches (BDoc (findTraceIDs_filter q)) (bson_of_Span d)
                  \<longrightarrow> (\<forall>(k, v)\<in>set (Tags q). \<exists>t\<in>set (span_Tags d). kv_Key t = k \<and> kv_Value t = IString v))
         \<and> (\<forall>docs ids. findTraceIDs (MemoryStorage docs) q = Ok ids \<longrightarrow>
               (\<forall>i\<in>set ids. \<exists>d\<in>set docs. span_TraceID d = i
                   \<and> (\<forall>(k, v)\<in>set (Tags q). \<exists>t\<in>set (span_Tags d). kv_Key t = k \<and> kv_Value t = IString v)))"
proof (intro conjI allI impI)
  show "map_of (findTraceIDs_filter q) ''$and'' = Some (BArr (map (\<lambda>(k, v). tag_clause k v) (Tags q)))"
    using assms by (simp add: findTraceIDs_filter_eq)
next
  fix k v d
  show "matches (tag_clause k v) (bson_of_Span d)
        = (\<exists>t\<in>set (span_Tags d). kv_Key t = k \<and> kv_Value t = IString v)"
    by (rule matches_tag_clause)
next
  fix d
  show "matches (BDoc [(''$and'', BArr (map (\<lambda>(k, v). tag_clause k v) (Tags q)))]) (bson_of_Span d)
        = (\<forall>(k, v)\<in>set (Tags q). \<exists>t\<in>set (span_Tags d). kv_Key t = k \<and> kv_Value t = IString v)"
    using matchesAll_tag_clauses [of "Tags q" d] by simp
next
  fix d
  assume "matches (BDoc (findTraceIDs_filter q)) (bson_of_Span d)"
  then show "\<forall>(k, v)\<in>set (Tags q). \<exists>t\<in>set (span_Tags d). kv_Key t = k \<and> kv_Value t = IString v"
    unfolding matches_filter_iff by blast
next
  fix docs ids
  assume r: "findTraceIDs (MemoryStorage docs) q = Ok ids"
  show "\<forall>i\<in>set ids. \<exists>d\<in>set docs. span_TraceID d = i
          \<and> (\<forall>(k, v)\<in>set (Tags q). \<exists>t\<in>set (span_Tags d). kv_Key t = k \<and> kv_Value t = IString v)"
  proof
    fix i
    assume "i \<in> set ids"
    from findTraceIDs_MemoryStorage_sound [OF r this]
    show "\<exists>d\<in>set docs. span_TraceID d = i
          \<and> (\<forall>(k, v)\<in>set (Tags q). \<exists>t\<in>set (span_Tags d). kv_Key t = k \<and> kv_Value t = IString v)"
      unfolding matches_filter_iff by blast
  qed
qed

theorem tag_filter_requires_every_pair_on_one_span_witness:
  "Tags (sample_query [(''http.status_code'', ''200''), (''component'', ''db'')] 0 0 10) \<noteq> []
   \<and> matches (BDoc (findTraceIDs_filter (sample_query [(''http.status_code'', ''200''), (''component'', ''db'')] 0 0 10)))
        (bson_of_Span (sample_doc 1 [\<lparr>kv_Key = ''component'', kv_Type = ''string'', kv_Value = IString ''db''\<rparr>,
                                     \<lparr>kv_Key = ''http.status_code'', kv_Type = ''int64'', kv_Value = IString ''200''\<rparr>]))
   \<and> (\<exists>t\<in>set (span_Tags (sample_doc 1 [\<lparr>kv_Key = ''component'', kv_Type = ''string'', kv_Value = IString ''db''\<rparr>,
                                     \<lparr>kv_Key = ''http.status_code'', kv_Type = ''int64'', kv_Value = IString ''200''\<rparr>])).
         kv_Key t = ''http.status_code'' \<and> kv_Value t = IString ''200'')
   \<and> findTraceIDs
        (MemoryStorage
           [sample_doc 1 [\<lparr>kv_Key = ''component'', kv_Type = ''string'', kv_Value = IString ''db''\<rparr>,
                          \<lparr>kv_Key = ''http.status_code'', kv_Type = ''int64'', kv_Value = IString ''200''\<rparr>],
            sample_doc 2 [\<lparr>kv_Key = ''http.status_code'', kv_Type = ''int64'', kv_Value = IString ''200''\<rparr>],
            sample_doc 2 [\<lparr>kv_Key = ''component'', kv_Type = ''string'', kv_Value = IString ''db''\<rparr>]])
        (sample_query [(''http.status_code'', ''200''), (''component'', ''db'')] 0 0 10)
      = Ok [''0000000000000001'']"
proof -
  let ?q = "sample_query [(''http.status_code'', ''200''), (''component'', ''db'')] 0 0 10"
  let ?d = "sample_doc 1 [\<lparr>kv_Key = ''component'', kv_Type = ''string'', kv_Value = IString ''db''\<rparr>,
                          \<lparr>kv_Key = ''http.status_code'', kv_Type = ''int64'', kv_Value = IString ''200''\<rparr>]"
  have t: "Tags ?q \<noteq> []" by (simp add: sample_query_def)
  have m: "matches (BDoc (findTraceIDs_filter ?q)) (bson_of_Span ?d)" by code_simp
  have n: "findTraceIDs
        (MemoryStorage
           [?d,
            sample_doc 2 [\<lparr>kv_Key = ''http.status_code'', kv_Type = ''int64'', kv_Value = IString ''200''\<rparr>],
            sample_doc 2 [\<lparr>kv_Key = ''component'', kv_Type = ''string'', kv_Value = IString ''db''\<rparr>]])
        ?q
      = Ok [''0000000000000001'']"
    by code_simp
  from tag_filter_requires_every_pair_on_one_span [OF t] m
  have "\<forall>(k, v)\<in>set (Tags ?q). \<exists>t\<in>set (span_Tags ?d). kv_Key t = k \<and> kv_Value t = IString v"
    by blast
  then have "\<exists>t\<in>set (span_Tags ?d). kv_Key t = ''http.status_code'' \<and> kv_Value t = IString ''200''"
    by (simp add: sample_query_def)
  with t m n show ?thesis by blast
qed



section \<open>Lookups and searches that match nothing\<close>








section \<open>Fetching and grouping by trace id\<close>














end
